theory Spec2Isabelle
  imports Complex_Main
begin

section \<open>JavaScript values and built-ins used by the servers\<close>

text \<open>
  A JavaScript number is modelled as a real (a finite double, rounding error and overflow
  left out) or as \<open>NaN\<close>. \<open>NaN\<close> is kept because the trip planner computes with the time
  values of \<open>Date\<close> objects, and the time value of an invalid date is \<open>NaN\<close>.
\<close>

datatype number = Num real | NaN

fun js_plus :: "number \<Rightarrow> number \<Rightarrow> number" where
  "js_plus (Num a) (Num b) = Num (a + b)"
| "js_plus _ _ = NaN"

fun js_minus :: "number \<Rightarrow> number \<Rightarrow> number" where
  "js_minus (Num a) (Num b) = Num (a - b)"
| "js_minus _ _ = NaN"

fun js_times :: "number \<Rightarrow> number \<Rightarrow> number" where
  "js_times (Num a) (Num b) = Num (a * b)"
| "js_times _ _ = NaN"

text \<open>Division by a non-zero constant only (the milliseconds of a day).\<close>

fun js_div_const :: "number \<Rightarrow> real \<Rightarrow> number" where
  "js_div_const (Num a) d = Num (a / d)"
| "js_div_const NaN d = NaN"

text \<open>\<open>a >= b\<close>: every comparison with \<open>NaN\<close> is false.\<close>

fun js_ge :: "number \<Rightarrow> number \<Rightarrow> bool" where
  "js_ge (Num a) (Num b) = (b \<le> a)"
| "js_ge _ _ = False"

fun Math_ceil :: "number \<Rightarrow> number" where
  "Math_ceil (Num a) = Num (of_int \<lceil>a\<rceil>)"
| "Math_ceil NaN = NaN"

text \<open>\<open>Math.round\<close> rounds to the nearest integer, a tie towards plus infinity.\<close>

definition Math_round :: "real \<Rightarrow> int" where
  "Math_round x = \<lfloor>x + 1 / 2\<rfloor>"

text \<open>
  Strings are byte strings; \<open>toLowerCase\<close> is modelled on the ASCII letters (the
  condition texts of the servers are ASCII).
\<close>

definition toLowerCase_char :: "char \<Rightarrow> char" where
  "toLowerCase_char c =
     (case map_of (zip ''ABCDEFGHIJKLMNOPQRSTUVWXYZ'' ''abcdefghijklmnopqrstuvwxyz'') c of
        Some l \<Rightarrow> l
      | None \<Rightarrow> c)"

definition toLowerCase :: "string \<Rightarrow> string" where
  "toLowerCase s = map toLowerCase_char s"

fun startsWith :: "string \<Rightarrow> string \<Rightarrow> bool" where
  "startsWith s [] = True"
| "startsWith [] (c # t) = False"
| "startsWith (a # s) (c # t) = (a = c \<and> startsWith s t)"

text \<open>\<open>s.includes(t)\<close>: \<open>t\<close> occurs in \<open>s\<close> at some position.\<close>

fun js_includes :: "string \<Rightarrow> string \<Rightarrow> bool" where
  "js_includes [] t = (t = [])"
| "js_includes (a # s) t = (startsWith (a # s) t \<or> js_includes s t)"

text \<open>\<open>s || d\<close> for an optional string: \<open>undefined\<close> and the empty string are falsy.\<close>

definition or_string :: "string option \<Rightarrow> string \<Rightarrow> string" where
  "or_string s d = (case s of None \<Rightarrow> d | Some x \<Rightarrow> if x = [] then d else x)"

text \<open>
  Property access \<open>obj[key]\<close> on an object written as a literal (or parsed from JSON),
  given as the map of its own properties: an own property wins; otherwise the key is
  looked up in \<open>Object.prototype\<close>, whose members are functions (and, for \<open>__proto__\<close>,
  the prototype object itself), all truthy; otherwise the result is \<open>undefined\<close>.
\<close>

definition Object_prototype_keys :: "string list" where
  "Object_prototype_keys =
     [''constructor'', ''__defineGetter__'', ''__defineSetter__'', ''hasOwnProperty'',
      ''__lookupGetter__'', ''__lookupSetter__'', ''isPrototypeOf'', ''propertyIsEnumerable'',
      ''toString'', ''valueOf'', ''__proto__'', ''toLocaleString'']"

datatype 'v property = Own 'v | Inherited string | Undefined

definition js_get :: "(string \<rightharpoonup> 'v) \<Rightarrow> string \<Rightarrow> 'v property" where
  "js_get obj key =
     (case obj key of
        Some v \<Rightarrow> Own v
      | None \<Rightarrow> if key \<in> set Object_prototype_keys then Inherited key else Undefined)"

text \<open>
  \<open>Array.prototype.sort(cmp)\<close> is stable. It is modelled by the stable insertion sort:
  an element is placed before the first element it does not have to follow.
\<close>

fun insert_by :: "('a \<Rightarrow> 'a \<Rightarrow> int) \<Rightarrow> 'a \<Rightarrow> 'a list \<Rightarrow> 'a list" where
  "insert_by cmp x [] = [x]"
| "insert_by cmp x (y # ys) = (if cmp x y \<le> 0 then x # y # ys else y # insert_by cmp x ys)"

definition Array_sort :: "('a \<Rightarrow> 'a \<Rightarrow> int) \<Rightarrow> 'a list \<Rightarrow> 'a list" where
  "Array_sort cmp xs = foldr (insert_by cmp) xs []"

datatype error_code = InvalidParams | InternalError | MethodNotFound

datatype js_error = McpError error_code string | TypeError | SyntaxError


section \<open>The travel orchestrator (travel-orchestrator.js)\<close>

record current_conditions =
  cur_temp :: real
  cur_conditions :: string
  cur_humidity :: real

record forecast_day =
  fc_date :: string
  fc_temp :: real
  fc_conditions :: string

record weather_forecast =
  current :: current_conditions
  forecast :: "forecast_day list"

record flight =
  airline :: string
  flightNumber :: string
  departure :: string
  arrival :: string
  fl_price :: number
  fl_duration :: string

record hotel =
  h_name :: string
  h_type :: string
  h_rating :: real
  pricePerNight :: real
  totalPrice :: number
  amenities :: "string list"

record activity =
  act_name :: string
  act_type :: string
  act_price :: number
  act_duration :: string
  act_rating :: real

record criteria =
  crit_budget :: "real option"
  crit_weather :: "string option"
  crit_activities :: "string list option"

definition getWeatherForecast :: "string \<Rightarrow> string option \<Rightarrow> string option \<Rightarrow> weather_forecast" where
  "getWeatherForecast destination startDate endDate =
     \<lparr>current = \<lparr>cur_temp = 22, cur_conditions = ''Sunny'', cur_humidity = 65\<rparr>,
      forecast =
        [\<lparr>fc_date = or_string startDate ''2024-01-01'', fc_temp = 20,
          fc_conditions = ''Partly Cloudy''\<rparr>,
         \<lparr>fc_date = or_string endDate ''2024-01-07'', fc_temp = 25, fc_conditions = ''Clear''\<rparr>]\<rparr>"

definition searchFlights ::
  "string option \<Rightarrow> string \<Rightarrow> string \<Rightarrow> string \<Rightarrow> number \<Rightarrow> flight list" where
  "searchFlights origin destination startDate endDate travelers =
     [\<lparr>airline = ''Example Airlines'', flightNumber = ''EX123'', departure = startDate,
       arrival = startDate, fl_price = js_times (Num 450) travelers, fl_duration = ''3h 30m''\<rparr>,
      \<lparr>airline = ''Sample Airways'', flightNumber = ''SA456'', departure = endDate,
       arrival = endDate, fl_price = js_times (Num 420) travelers, fl_duration = ''3h 15m''\<rparr>]"

text \<open>
  \<open>Date_parse s\<close> stands for \<open>new Date(s).getTime()\<close>, a built-in of the runtime: the
  milliseconds since the epoch, or \<open>NaN\<close> for a string that is not a date.
\<close>

definition searchHotels ::
  "(string \<Rightarrow> number) \<Rightarrow> string \<Rightarrow> string \<Rightarrow> string \<Rightarrow> number \<Rightarrow> string option \<Rightarrow> hotel list" where
  "searchHotels Date_parse destination startDate endDate travelers accommodationType =
     (let nights =
            Math_ceil (js_div_const (js_minus (Date_parse endDate) (Date_parse startDate))
              (1000 * 60 * 60 * 24))
      in [\<lparr>h_name = ''Grand Hotel Example'', h_type = or_string accommodationType ''hotel'',
            h_rating = 45 / 10, pricePerNight = 150, totalPrice = js_times (Num 150) nights,
            amenities = [''WiFi'', ''Pool'', ''Gym'', ''Restaurant'']\<rparr>,
          \<lparr>h_name = ''Cozy Boutique Stay'', h_type = or_string accommodationType ''hotel'',
            h_rating = 42 / 10, pricePerNight = 120, totalPrice = js_times (Num 120) nights,
            amenities = [''WiFi'', ''Breakfast'', ''Spa'']\<rparr>])"

definition getActivities :: "string \<Rightarrow> string list option \<Rightarrow> activity list" where
  "getActivities destination activityTypes =
     filter
       (\<lambda>activity.
          (case activityTypes of
             None \<Rightarrow> True
           | Some ts \<Rightarrow> length ts = 0 \<or> act_type activity \<in> set ts))
       [\<lparr>act_name = ''City Walking Tour'', act_type = ''sightseeing'', act_price = Num 25,
         act_duration = ''3 hours'', act_rating = 48 / 10\<rparr>,
        \<lparr>act_name = ''Local Food Experience'', act_type = ''culinary'', act_price = Num 60,
         act_duration = ''2 hours'', act_rating = 49 / 10\<rparr>,
        \<lparr>act_name = ''Adventure Park'', act_type = ''adventure'', act_price = Num 45,
         act_duration = ''4 hours'', act_rating = 46 / 10\<rparr>]"

text \<open>
  \<open>currencyMap[destination] || 'USD'\<close>: the default is taken only when the lookup is
  \<open>undefined\<close>; an inherited member of \<open>Object.prototype\<close> is truthy and is returned.
\<close>

definition getCurrencyInfo :: "string \<Rightarrow> string property" where
  "getCurrencyInfo destination =
     (case js_get (map_of [(''Paris'', ''EUR''), (''London'', ''GBP''), (''Tokyo'', ''JPY''),
                           (''New York'', ''USD''), (''Sydney'', ''AUD'')]) destination of
        Undefined \<Rightarrow> Own ''USD''
      | v \<Rightarrow> v)"

definition getLanguageInfo :: "string \<Rightarrow> string property" where
  "getLanguageInfo destination =
     (case js_get (map_of [(''Paris'', ''French''), (''London'', ''English''),
                           (''Tokyo'', ''Japanese''), (''New York'', ''English''),
                           (''Sydney'', ''English'')]) destination of
        Undefined \<Rightarrow> Own ''Local Language''
      | v \<Rightarrow> v)"

text \<open>
  \<open>Math.random()\<close> is the environment: the functions that call it take the drawn value
  \<open>u\<close> as an argument.
\<close>

definition getSafetyRating :: "real \<Rightarrow> real" where
  "getSafetyRating u = of_int \<lfloor>u * 2\<rfloor> + 4"

definition getAverageHotelCost :: "real \<Rightarrow> real" where
  "getAverageHotelCost u = of_int \<lfloor>u * 100\<rfloor> + 100"

definition calculateTotalCost :: "flight list \<Rightarrow> hotel list \<Rightarrow> activity list \<Rightarrow> number \<Rightarrow> number" where
  "calculateTotalCost flights hotels activities travelers =
     (let flightCost = foldl (\<lambda>sum flight. js_plus sum (fl_price flight)) (Num 0) flights;
          hotelCost = foldl (\<lambda>sum hotel. js_plus sum (totalPrice hotel)) (Num 0) hotels;
          activityCost =
            js_times (foldl (\<lambda>sum activity. js_plus sum (act_price activity)) (Num 0) activities)
              travelers
      in js_plus (js_plus flightCost hotelCost) activityCost)"

text \<open>
  The four parts of the score, in the order the function adds them. \<open>criteria.weather &&
  ...\<close> is false for an absent and for an empty preference.
\<close>

definition weatherScore :: "weather_forecast \<Rightarrow> criteria \<Rightarrow> real" where
  "weatherScore weather criteria =
     (if (case crit_weather criteria of
            None \<Rightarrow> False
          | Some w \<Rightarrow>
              w \<noteq> [] \<and>
              js_includes (toLowerCase (cur_conditions (current weather))) (toLowerCase w))
      then 30 else 20)"

definition costScore :: "real \<Rightarrow> real" where
  "costScore hotelCost = max 0 (25 - hotelCost / 10)"

definition safetyScore :: "real \<Rightarrow> real" where
  "safetyScore safety = (safety / 5) * 25"

definition activitiesScore :: "activity list \<Rightarrow> real" where
  "activitiesScore activities = min (real (length activities) * 5) 20"

definition calculateOverallScore ::
  "weather_forecast \<Rightarrow> real \<Rightarrow> real \<Rightarrow> activity list \<Rightarrow> criteria \<Rightarrow> int" where
  "calculateOverallScore weather hotelCost safety activities criteria =
     (let score = 0;
          score = score + weatherScore weather criteria;
          score = score + costScore hotelCost;
          score = score + safetyScore safety;
          score = score + activitiesScore activities
      in Math_round score)"


record destination_score =
  ds_destination :: string
  ds_weather :: current_conditions
  averageHotelCost :: real
  safetyRating :: real
  activityScore :: nat
  overallScore :: int

record compare_args =
  ca_destinations :: "string list"
  ca_criteria :: "criteria option"

text \<open>
  The callback of \<open>destinations.map\<close> in \<open>compareDestinations\<close>, for one destination;
  \<open>u_cost\<close> and \<open>u_safety\<close> are the two random draws of this branch.
\<close>

definition compare_branch :: "criteria \<Rightarrow> real \<Rightarrow> real \<Rightarrow> string \<Rightarrow> destination_score" where
  "compare_branch criteria u_cost u_safety dest =
     (let weather = getWeatherForecast dest None None;
          avgHotelCost = getAverageHotelCost u_cost;
          safety = getSafetyRating u_safety;
          activities = getActivities dest (crit_activities criteria)
      in \<lparr>ds_destination = dest, ds_weather = current weather,
           averageHotelCost = avgHotelCost, safetyRating = safety,
           activityScore = length activities,
           overallScore = calculateOverallScore weather avgHotelCost safety activities criteria\<rparr>)"

text \<open>
  \<open>Promise.all\<close> over the mapped branches keeps the positions of the input array; the
  \<open>i\<close>-th branch draws \<open>rnd_cost i\<close> and \<open>rnd_safety i\<close>.
\<close>

definition comparisons_of ::
  "(nat \<Rightarrow> real) \<Rightarrow> (nat \<Rightarrow> real) \<Rightarrow> compare_args \<Rightarrow> destination_score list" where
  "comparisons_of rnd_cost rnd_safety args =
     (let destinations = ca_destinations args;
          criteria =
            (case ca_criteria args of
               None \<Rightarrow> \<lparr>crit_budget = None, crit_weather = None, crit_activities = None\<rparr>
             | Some c \<Rightarrow> c)
      in map (\<lambda>(i, dest). compare_branch criteria (rnd_cost i) (rnd_safety i) dest)
           (enumerate 0 destinations))"

definition compareDestinations ::
  "(nat \<Rightarrow> real) \<Rightarrow> (nat \<Rightarrow> real) \<Rightarrow> compare_args \<Rightarrow> destination_score list" where
  "compareDestinations rnd_cost rnd_safety args =
     Array_sort (\<lambda>a b. overallScore b - overallScore a) (comparisons_of rnd_cost rnd_safety args)"

record preferences =
  weatherPreference :: "string option"
  activityTypes :: "string list option"
  accommodationType :: "string option"
  transportationPreference :: "string option"

record trip_args =
  ta_destination :: string
  ta_origin :: "string option"
  ta_startDate :: string
  ta_endDate :: string
  ta_budget :: "real option"
  ta_travelers :: "real option"
  ta_preferences :: "preferences option"

record trip_plan =
  tp_destination :: string
  tp_weather :: weather_forecast
  tp_flights :: "flight list"
  tp_hotels :: "hotel list"
  tp_activities :: "activity list"
  totalCost :: number
  tp_currency :: "string property"
  tp_language :: "string property"
  tp_safetyRating :: real

text \<open>
  \<open>planTrip\<close>: the thrown \<open>McpError\<close> is the \<open>Inl\<close> result, the recommendation that is
  serialised into the reply is the \<open>Inr\<close> result. \<open>u_safety\<close> is the random draw of
  \<open>getSafetyRating\<close>.
\<close>

definition planTrip :: "(string \<Rightarrow> number) \<Rightarrow> real \<Rightarrow> trip_args \<Rightarrow> js_error + trip_plan" where
  "planTrip Date_parse u_safety args =
     (let destination = ta_destination args;
          origin = ta_origin args;
          startDate = ta_startDate args;
          endDate = ta_endDate args;
          travelers = (case ta_travelers args of None \<Rightarrow> Num 1 | Some t \<Rightarrow> Num t);
          preferences =
            (case ta_preferences args of
               None \<Rightarrow>
                 \<lparr>weatherPreference = None, activityTypes = None, accommodationType = None,
                  transportationPreference = None\<rparr>
             | Some p \<Rightarrow> p);
          start = Date_parse startDate;
          end' = Date_parse endDate
      in if js_ge start end'
         then Inl (McpError InvalidParams ''End date must be after start date'')
         else
           (let weather = getWeatherForecast destination (Some startDate) (Some endDate);
                flights = searchFlights origin destination startDate endDate travelers;
                hotels =
                  searchHotels Date_parse destination startDate endDate travelers
                    (accommodationType preferences);
                activities = getActivities destination (activityTypes preferences);
                currency = getCurrencyInfo destination;
                language = getLanguageInfo destination;
                safetyRating = getSafetyRating u_safety;
                totalCost = calculateTotalCost flights hotels activities travelers
            in Inr \<lparr>tp_destination = destination, tp_weather = weather, tp_flights = flights,
                    tp_hotels = hotels, tp_activities = activities, totalCost = totalCost,
                    tp_currency = currency, tp_language = language,
                    tp_safetyRating = safetyRating\<rparr>))"


section \<open>The weather server (weather-server.ts)\<close>

text \<open>
  The outcome of one HTTP request: the request fails (an axios error with its message),
  the reply lacks an object the code reads (a \<open>TypeError\<close> at the property access), or
  the reply carries the fields the code reads.
\<close>

datatype 'a http_result = AxiosError string | Malformed | Response 'a

record weather_response =
  main_temp :: real
  weather0_description :: string
  main_humidity :: real
  wind_speed :: real

text \<open>\<open>!API_KEY\<close>: the key is unset or empty.\<close>

definition no_key :: "string option \<Rightarrow> bool" where
  "no_key API_KEY = (case API_KEY of None \<Rightarrow> True | Some k \<Rightarrow> k = [])"

record alerts_reply =
  alerts :: "string list"
  message :: string

definition getWeatherAlerts :: "string option \<Rightarrow> string \<Rightarrow> alerts_reply" where
  "getWeatherAlerts API_KEY destination =
     (if no_key API_KEY
      then \<lparr>alerts = [], message = ''No active weather alerts''\<rparr>
      else \<lparr>alerts = [], message = ''Weather alerts not available in free tier''\<rparr>)"

text \<open>
  The \<open>current\<close> part of \<open>getMockWeatherData\<close>, from its four random draws. The forecast
  array of the mock is not read by \<open>compareDestinationWeather\<close> and is not modelled.
  \<open>xs[Math.floor(u * xs.length)]\<close> is \<open>undefined\<close> (\<open>None\<close>) outside the array.
\<close>

record mock_draws =
  u_condition :: real
  u_temp :: real
  u_humidity :: real
  u_wind :: real

record mock_current =
  mc_temp :: real
  mc_conditions :: "string option"
  mc_humidity :: real
  mc_windSpeed :: real

definition random_element :: "'a list \<Rightarrow> real \<Rightarrow> 'a option" where
  "random_element xs u =
     (let i = \<lfloor>u * real (length xs)\<rfloor>
      in if 0 \<le> i \<and> i < int (length xs) then Some (xs ! nat i) else None)"

definition getMockWeatherData_current :: "mock_draws \<Rightarrow> mock_current" where
  "getMockWeatherData_current draws =
     (let mockConditions = [''Sunny'', ''Partly Cloudy'', ''Cloudy'', ''Light Rain'', ''Clear''];
          randomCondition = random_element mockConditions (u_condition draws);
          baseTemp = of_int \<lfloor>u_temp draws * 15\<rfloor> + 15
      in \<lparr>mc_temp = baseTemp, mc_conditions = randomCondition,
           mc_humidity = of_int \<lfloor>u_humidity draws * 40\<rfloor> + 40,
           mc_windSpeed = of_int \<lfloor>u_wind draws * 20\<rfloor> + 5\<rparr>)"

datatype weather_comparison =
    WeatherOf (wc_destination: string) (wc_temperature: real) (wc_conditions: "string option")
      (wc_humidity: real) (wc_windSpeed: real)
  | WeatherError (wc_destination: string) (wc_error: string)

text \<open>
  The callback of \<open>destinations.map\<close> in \<open>compareDestinationWeather\<close>: \<open>draws\<close> are the
  random draws of the branch in mock mode, \<open>response\<close> the outcome of its request
  otherwise. The \<open>catch\<close> takes every exception.
\<close>

definition weather_branch ::
  "string option \<Rightarrow> mock_draws \<Rightarrow> weather_response http_result \<Rightarrow> string \<Rightarrow> weather_comparison" where
  "weather_branch API_KEY draws response dest =
     (if no_key API_KEY
      then (let mockData = getMockWeatherData_current draws
            in WeatherOf dest (mc_temp mockData) (mc_conditions mockData) (mc_humidity mockData)
                 (mc_windSpeed mockData))
      else (case response of
              Response r \<Rightarrow>
                WeatherOf dest (main_temp r) (Some (weather0_description r)) (main_humidity r)
                  (wind_speed r)
            | _ \<Rightarrow> WeatherError dest ''Unable to fetch weather data''))"

definition compareDestinationWeather ::
  "string option \<Rightarrow> (nat \<Rightarrow> mock_draws) \<Rightarrow> (nat \<Rightarrow> string \<Rightarrow> weather_response http_result) \<Rightarrow>
   string list \<Rightarrow> weather_comparison list" where
  "compareDestinationWeather API_KEY rnd http_get destinations =
     map (\<lambda>(i, dest). weather_branch API_KEY (rnd i) (http_get i dest) dest)
       (enumerate 0 destinations)"


section \<open>The currency server (currency-server.ts)\<close>

record currency_info =
  code :: string
  cname :: string
  symbol :: string
  country :: string

text \<open>The currency symbols are the UTF-8 bytes of the source's literals.\<close>

definition destinationCurrencies :: "string \<rightharpoonup> currency_info" where
  "destinationCurrencies =
     map_of
     [(''Paris'', \<lparr>code = ''EUR'', cname = ''Euro'', symbol = [CHR 0xE2, CHR 0x82, CHR 0xAC],
         country = ''France''\<rparr>),
      (''London'', \<lparr>code = ''GBP'', cname = ''British Pound'', symbol = [CHR 0xC2, CHR 0xA3],
         country = ''United Kingdom''\<rparr>),
      (''Tokyo'', \<lparr>code = ''JPY'', cname = ''Japanese Yen'', symbol = [CHR 0xC2, CHR 0xA5],
         country = ''Japan''\<rparr>),
      (''New York'', \<lparr>code = ''USD'', cname = ''US Dollar'', symbol = ''$'',
         country = ''United States''\<rparr>),
      (''Sydney'', \<lparr>code = ''AUD'', cname = ''Australian Dollar'', symbol = ''A$'',
         country = ''Australia''\<rparr>),
      (''Bangkok'', \<lparr>code = ''THB'', cname = ''Thai Baht'', symbol = [CHR 0xE0, CHR 0xB8, CHR 0xBF],
         country = ''Thailand''\<rparr>),
      (''Dubai'', \<lparr>code = ''AED'', cname = ''UAE Dirham'',
         symbol = [CHR 0xD8, CHR 0xAF, CHR ''.'', CHR 0xD8, CHR 0xA5], country = ''UAE''\<rparr>),
      (''Singapore'', \<lparr>code = ''SGD'', cname = ''Singapore Dollar'', symbol = ''S$'',
         country = ''Singapore''\<rparr>)]"

definition default_currency :: currency_info where
  "default_currency =
     \<lparr>code = ''USD'', cname = ''US Dollar'', symbol = ''$'', country = ''Unknown''\<rparr>"

text \<open>
  The text of the reply is \<open>JSON.stringify(currencyInfo)\<close>: the JSON of a
  \<open>CurrencyInfo\<close>; \<open>{}\<close> for \<open>Object.prototype\<close> (the key \<open>__proto__\<close>); \<open>undefined\<close> for
  a function (any other member of \<open>Object.prototype\<close>).
\<close>

datatype currency_text = InfoText currency_info | EmptyObjectText | UndefinedText

definition getDestinationCurrency :: "string \<Rightarrow> currency_text" where
  "getDestinationCurrency destination =
     (let currencyInfo =
            (case js_get destinationCurrencies destination of
               Undefined \<Rightarrow> Own default_currency
             | v \<Rightarrow> v)
      in case currencyInfo of
           Own info \<Rightarrow> InfoText info
         | Inherited k \<Rightarrow> if k = ''__proto__'' then EmptyObjectText else UndefinedText
         | Undefined \<Rightarrow> UndefinedText)"

record convert_args =
  cv_from :: string
  cv_to :: string
  cv_amount :: "real option"

text \<open>
  In the serialised reply \<open>er_rate\<close> is \<open>None\<close> when the rate is not a number (JSON drops
  a function), and a \<open>convertedAmount\<close> of \<open>NaN\<close> is written as \<open>null\<close>.
\<close>

record exchange_rate =
  er_from :: string
  er_to :: string
  er_rate :: "real option"
  er_timestamp :: string

record conversion =
  exchangeRate :: exchange_rate
  convertedAmount :: number
  originalAmount :: real

text \<open>
  \<open>convertCurrency\<close>: \<open>http_get url\<close> is the outcome of the provider request, whose
  reply holds the object \<open>rates\<close> (currency code to rate); \<open>now\<close> is the time stamp.
  \<open>!rate\<close> is true for \<open>undefined\<close> and for a rate of \<open>0\<close>; an inherited member of
  \<open>Object.prototype\<close> is truthy, and its product with a number is \<open>NaN\<close>.
\<close>

definition convertCurrency ::
  "(string \<Rightarrow> (string \<rightharpoonup> real) http_result) \<Rightarrow> string \<Rightarrow> convert_args \<Rightarrow>
   js_error + conversion" where
  "convertCurrency http_get now args =
     (let from = cv_from args;
          to = cv_to args;
          amount = (case cv_amount args of None \<Rightarrow> 1 | Some a \<Rightarrow> a);
          unavailable =
            McpError InvalidParams (''Exchange rate not available for '' @ from @ '' to '' @ to)
      in case http_get (''/'' @ from) of
           AxiosError msg \<Rightarrow> Inl (McpError InternalError (''Currency conversion error: '' @ msg))
         | Malformed \<Rightarrow> Inl TypeError
         | Response rates \<Rightarrow>
             (case js_get rates to of
                Undefined \<Rightarrow> Inl unavailable
              | Own rate \<Rightarrow>
                  if rate = 0 then Inl unavailable
                  else Inr \<lparr>exchangeRate =
                             \<lparr>er_from = from, er_to = to, er_rate = Some rate, er_timestamp = now\<rparr>,
                           convertedAmount = Num (amount * rate), originalAmount = amount\<rparr>
              | Inherited k \<Rightarrow>
                  Inr \<lparr>exchangeRate =
                         \<lparr>er_from = from, er_to = to, er_rate = None, er_timestamp = now\<rparr>,
                       convertedAmount = NaN, originalAmount = amount\<rparr>))"

datatype budget_conversion =
    BudgetIn (bc_destination: string) (bc_localCurrency: "currency_info option")
      (bc_budgetInLocalCurrency: number) (bc_exchangeRate: "real option")
  | BudgetError (bc_destination: string) (bc_error: string)

text \<open>
  The callback of \<open>destinations.map\<close> in \<open>getTravelBudgetConversion\<close>. \<open>JSON.parse\<close>
  throws on the text \<open>undefined\<close>; the text \<open>{}\<close> parses to an object without a
  \<open>code\<close>, so that \<open>to\<close> is \<open>undefined\<close> and the rate is looked up under the key
  \<open>undefined\<close> (\<open>bc_localCurrency\<close> is \<open>None\<close> for that empty object). The \<open>catch\<close> takes
  every exception.
\<close>

definition budget_branch ::
  "(string \<Rightarrow> (string \<rightharpoonup> real) http_result) \<Rightarrow> string \<Rightarrow> real \<Rightarrow> string \<Rightarrow> string \<Rightarrow>
   budget_conversion" where
  "budget_branch http_get now budget homeCurrency dest =
     (case getDestinationCurrency dest of
        UndefinedText \<Rightarrow> BudgetError dest ''Unable to convert currency''
      | destCurrency \<Rightarrow>
          (let currencyInfo =
                 (case destCurrency of InfoText info \<Rightarrow> Some info | _ \<Rightarrow> None);
               to = (case currencyInfo of Some info \<Rightarrow> code info | None \<Rightarrow> ''undefined'')
           in case convertCurrency http_get now
                     \<lparr>cv_from = homeCurrency, cv_to = to, cv_amount = Some budget\<rparr> of
                Inl error \<Rightarrow> BudgetError dest ''Unable to convert currency''
              | Inr rateInfo \<Rightarrow>
                  BudgetIn dest currencyInfo (convertedAmount rateInfo)
                    (er_rate (exchangeRate rateInfo))))"

record budget_args =
  ba_budget :: real
  ba_homeCurrency :: "string option"
  ba_destinations :: "string list"

definition getTravelBudgetConversion ::
  "(nat \<Rightarrow> string \<Rightarrow> (string \<rightharpoonup> real) http_result) \<Rightarrow> string \<Rightarrow> budget_args \<Rightarrow>
   budget_conversion list" where
  "getTravelBudgetConversion http_get now args =
     (let budget = ba_budget args;
          homeCurrency = (case ba_homeCurrency args of None \<Rightarrow> ''USD'' | Some h \<Rightarrow> h);
          destinations = ba_destinations args
      in map (\<lambda>(i, dest). budget_branch (http_get i) now budget homeCurrency dest)
           (enumerate 0 destinations))"





















section \<open>The sentences of the specification, as definitions\<close>

text \<open>
  The specification's scoring formula: a weather term of 30 when the preference is a
  case-insensitive substring of the current conditions, of 20 otherwise.
\<close>

definition ci_substring :: "string \<Rightarrow> string \<Rightarrow> bool" where
  "ci_substring p c = (\<exists>l r. toLowerCase c = l @ toLowerCase p @ r)"

definition spec_weather_term :: "string option \<Rightarrow> string \<Rightarrow> real" where
  "spec_weather_term preference conditions =
     (case preference of
        None \<Rightarrow> 20
      | Some p \<Rightarrow> if ci_substring p conditions then 30 else 20)"

definition spec_overall_score :: "real \<Rightarrow> real \<Rightarrow> real \<Rightarrow> nat \<Rightarrow> int" where
  "spec_overall_score weatherTerm hotelCost safety activityCount =
     Math_round (weatherTerm + max 0 (25 - hotelCost / 10) + (safety / 5) * 25 +
       min (real activityCount * 5) 20)"

text \<open>The weather term as the code computes it: an empty preference counts as none.\<close>

definition amended_weather_term :: "string option \<Rightarrow> string \<Rightarrow> real" where
  "amended_weather_term preference conditions =
     (case preference of
        None \<Rightarrow> 20
      | Some p \<Rightarrow> if p \<noteq> [] \<and> ci_substring p conditions then 30 else 20)"

text \<open>The sum of a list of JavaScript numbers: \<open>NaN\<close> as soon as one of them is.\<close>

definition the_num :: "number \<Rightarrow> real" where
  "the_num x = (case x of Num r \<Rightarrow> r | NaN \<Rightarrow> 0)"

definition js_sum :: "number list \<Rightarrow> number" where
  "js_sum xs = (if NaN \<in> set xs then NaN else Num (sum_list (map the_num xs)))"




section \<open>Properties\<close>

lemma startsWith_iff: "startsWith s t \<longleftrightarrow> (\<exists>r. s = t @ r)"
  by (induction s t rule: startsWith.induct) auto

lemma js_includes_iff: "js_includes s t \<longleftrightarrow> (\<exists>p r. s = p @ t @ r)"
proof (induction s)
  case Nil
  show ?case by auto
next
  case (Cons a s)
  show ?case
  proof
    assume "js_includes (a # s) t"
    then consider "startsWith (a # s) t" | "js_includes s t" by auto
    then show "\<exists>p r. a # s = p @ t @ r"
    proof cases
      case 1
      then obtain r where "a # s = t @ r" by (auto simp: startsWith_iff)
      then have "a # s = [] @ t @ r" by simp
      then show ?thesis by blast
    next
      case 2
      then obtain p r where "s = p @ t @ r" using Cons.IH by auto
      then have "a # s = (a # p) @ t @ r" by simp
      then show ?thesis by blast
    qed
  next
    assume "\<exists>p r. a # s = p @ t @ r"
    then obtain p r where eq: "a # s = p @ t @ r" by auto
    show "js_includes (a # s) t"
    proof (cases p)
      case Nil
      with eq have "startsWith (a # s) t" by (auto simp: startsWith_iff)
      then show ?thesis by simp
    next
      case (Cons b p')
      with eq have "s = p' @ t @ r" by simp
      then have "js_includes s t" using Cons.IH by auto
      then show ?thesis by simp
    qed
  qed
qed

subsection \<open>The scoring engine\<close>

lemma weatherScore_amended:
  "weatherScore weather criteria =
     amended_weather_term (crit_weather criteria) (cur_conditions (current weather))"
  by (simp add: weatherScore_def amended_weather_term_def ci_substring_def js_includes_iff
      split: option.splits)

lemma ci_substring_empty: "ci_substring [] c"
proof -
  have "toLowerCase c = [] @ toLowerCase [] @ toLowerCase c"
    by (simp add: toLowerCase_def)
  then show ?thesis unfolding ci_substring_def by blast
qed

text \<open>
  Claim C1, as stated, fails: for the empty preference (a preference that is given, and a
  substring of every text) the specification's formula has a weather term of 30, while
  \<open>criteria.weather && ...\<close> is false for the empty string and the code adds 20. With
  conditions \<open>Sunny\<close>, hotel cost 100, safety 5 and no activity the code returns 60 and
  the formula 70.
\<close>

theorem calculateOverallScore_empty_preference_counterexample:
  "calculateOverallScore (getWeatherForecast ''Paris'' None None) 100 5 []
      \<lparr>crit_budget = None, crit_weather = Some '''', crit_activities = None\<rparr>
   \<noteq> spec_overall_score (spec_weather_term (Some '''') ''Sunny'') 100 5 0"
  by (simp add: calculateOverallScore_def spec_overall_score_def spec_weather_term_def
      ci_substring_empty weatherScore_def costScore_def safetyScore_def activitiesScore_def
      getWeatherForecast_def Math_round_def Let_def)

text \<open>
  Claim C1, amended: for every weather snapshot, optional preference, hotel cost, safety
  rating and activity list, the overall score is the rounded sum of the weather term (30
  when a non-empty preference is given and is a case-insensitive substring of the current
  conditions, 20 otherwise), \<open>max(0, 25 - hotelCost/10)\<close>, \<open>(safetyRating/5)*25\<close> and
  \<open>min(activityCount*5, 20)\<close>.
\<close>

theorem calculateOverallScore_formula:
  "calculateOverallScore weather hotelCost safety activities criteria =
     spec_overall_score
       (amended_weather_term (crit_weather criteria) (cur_conditions (current weather)))
       hotelCost safety (length activities)"
  by (simp add: calculateOverallScore_def spec_overall_score_def weatherScore_amended
      costScore_def safetyScore_def activitiesScore_def Let_def)

text \<open>
  Claim C6: for a safety rating in [0, 5], a hotel cost of at least 0, any activity list,
  conditions and preference, the safety term lies in [0, 25], the cost term in [0, 25],
  the activity term in [0, 20], the weather term is 20 or 30, and the overall score (an
  integer) lies in [0, 100].
\<close>

theorem overallScore_range:
  assumes "0 \<le> safety" and "safety \<le> 5" and "0 \<le> hotelCost"
  shows "0 \<le> safetyScore safety \<and> safetyScore safety \<le> 25 \<and>
         0 \<le> costScore hotelCost \<and> costScore hotelCost \<le> 25 \<and>
         0 \<le> activitiesScore activities \<and> activitiesScore activities \<le> 20 \<and>
         (weatherScore weather criteria = 20 \<or> weatherScore weather criteria = 30) \<and>
         0 \<le> calculateOverallScore weather hotelCost safety activities criteria \<and>
         calculateOverallScore weather hotelCost safety activities criteria \<le> 100"
proof -
  have s: "0 \<le> safetyScore safety \<and> safetyScore safety \<le> 25"
    using assms by (simp add: safetyScore_def)
  have c: "0 \<le> costScore hotelCost \<and> costScore hotelCost \<le> 25"
    using assms by (simp add: costScore_def)
  have a: "0 \<le> activitiesScore activities \<and> activitiesScore activities \<le> 20"
    by (simp add: activitiesScore_def)
  have w: "weatherScore weather criteria = 20 \<or> weatherScore weather criteria = 30"
    by (simp add: weatherScore_def)
  let ?t = "weatherScore weather criteria + costScore hotelCost + safetyScore safety +
            activitiesScore activities"
  have eq: "calculateOverallScore weather hotelCost safety activities criteria = \<lfloor>?t + 1 / 2\<rfloor>"
    by (simp add: calculateOverallScore_def Math_round_def Let_def)
  have lo: "0 \<le> ?t + 1 / 2" using s c a w by linarith
  have hi: "?t + 1 / 2 < 101" using s c a w by linarith
  have "0 \<le> \<lfloor>?t + 1 / 2\<rfloor>" using lo by simp
  moreover have "\<lfloor>?t + 1 / 2\<rfloor> \<le> 100" using hi by (simp add: floor_le_iff)
  ultimately show ?thesis using s c a w eq by simp
qed

theorem overallScore_range_witness:
  "calculateOverallScore (getWeatherForecast ''Paris'' None None) 150 4
      (getActivities ''Paris'' None)
      \<lparr>crit_budget = None, crit_weather = Some ''sun'', crit_activities = None\<rparr> = 75 \<and>
   0 \<le> calculateOverallScore (getWeatherForecast ''Paris'' None None) 150 4
      (getActivities ''Paris'' None)
      \<lparr>crit_budget = None, crit_weather = Some ''sun'', crit_activities = None\<rparr>"
  using overallScore_range [of 4 150 "getActivities ''Paris'' None"
      "getWeatherForecast ''Paris'' None None"
      "\<lparr>crit_budget = None, crit_weather = Some ''sun'', crit_activities = None\<rparr>"]
  by (simp add: calculateOverallScore_def weatherScore_def costScore_def safetyScore_def
      activitiesScore_def getWeatherForecast_def getActivities_def Math_round_def Let_def
      toLowerCase_def toLowerCase_char_def)


subsection \<open>The cost calculator\<close>

lemma foldl_js_plus:
  "foldl (\<lambda>sum x. js_plus sum (f x)) acc xs = js_plus acc (js_sum (map f xs))"
proof (induction xs arbitrary: acc)
  case Nil
  show ?case by (cases acc) (simp_all add: js_sum_def)
next
  case (Cons x xs)
  show ?case
    by (cases acc; cases "f x") (auto simp: Cons.IH js_sum_def the_num_def)
qed

lemma js_plus_zero: "js_plus (Num 0) x = x"
  by (cases x) simp_all

lemma js_sum_finite: "js_sum (map Num xs) = Num (sum_list xs)"
  by (induction xs) (auto simp: js_sum_def the_num_def comp_def)

text \<open>
  Claim C2: for every list of flights, hotels and activities and every travelers count,
  the total cost is the sum of the flight prices, plus the sum of the hotels' total
  prices, plus the sum of the activity prices multiplied by the travelers count (in
  JavaScript arithmetic: a sum or product with \<open>NaN\<close> is \<open>NaN\<close>).
\<close>

theorem calculateTotalCost_sum:
  "calculateTotalCost flights hotels activities travelers =
     js_plus (js_plus (js_sum (map fl_price flights)) (js_sum (map totalPrice hotels)))
       (js_times (js_sum (map act_price activities)) travelers)"
  by (simp add: calculateTotalCost_def foldl_js_plus js_plus_zero Let_def)

lemma calculateTotalCost_finite:
  assumes "map fl_price flights = map Num fs" and "map totalPrice hotels = map Num hs"
    and "map act_price activities = map Num as"
  shows "calculateTotalCost flights hotels activities (Num t) =
           Num (sum_list fs + sum_list hs + sum_list as * t)"
  by (simp add: calculateTotalCost_def foldl_js_plus js_plus_zero Let_def assms js_sum_finite)

subsection \<open>Comparing destinations\<close>

lemma length_insert_by: "length (insert_by cmp x ys) = Suc (length ys)"
  by (induction ys) auto

lemma set_insert_by: "set (insert_by cmp x ys) = insert x (set ys)"
  by (induction ys) auto

lemma length_Array_sort: "length (Array_sort cmp xs) = length xs"
  by (induction xs) (auto simp: Array_sort_def length_insert_by)

lemma sorted_insert_by:
  "sorted_wrt (\<lambda>a b. f b \<le> f a) ys \<Longrightarrow>
   sorted_wrt (\<lambda>a b. f b \<le> f a) (insert_by (\<lambda>a b. f b - f a) x ys)"
  for f :: "'a \<Rightarrow> int"
proof (induction ys)
  case Nil
  show ?case by simp
next
  case (Cons y ys)
  show ?case
  proof (cases "f y - f x \<le> 0")
    case True
    then have "\<forall>z \<in> set (y # ys). f z \<le> f x"
      using Cons.prems by fastforce
    then show ?thesis using True Cons.prems by simp
  next
    case False
    then have "\<forall>z \<in> set (insert_by (\<lambda>a b. f b - f a) x ys). f z \<le> f y"
      using Cons.prems by (auto simp: set_insert_by)
    then show ?thesis using False Cons by simp
  qed
qed

lemma sorted_Array_sort:
  "sorted_wrt (\<lambda>a b. f b \<le> f a) (Array_sort (\<lambda>a b. f b - f a) xs)"
  for f :: "'a \<Rightarrow> int"
  by (induction xs) (auto simp: Array_sort_def intro: sorted_insert_by)

lemma filter_insert_by:
  "filter (\<lambda>e. f e = k) (insert_by (\<lambda>a b. f b - f a) x ys) =
     (if f x = k then x # filter (\<lambda>e. f e = k) ys else filter (\<lambda>e. f e = k) ys)"
  for f :: "'a \<Rightarrow> int"
  by (induction ys) auto

lemma filter_Array_sort:
  "filter (\<lambda>e. f e = k) (Array_sort (\<lambda>a b. f b - f a) xs) = filter (\<lambda>e. f e = k) xs"
  for f :: "'a \<Rightarrow> int"
  by (induction xs) (auto simp: Array_sort_def filter_insert_by)

lemma destinations_of_comparisons:
  "map ds_destination (comparisons_of rnd_cost rnd_safety args) = ca_destinations args"
proof -
  have "map (ds_destination \<circ> (\<lambda>(i, dest). compare_branch c (rc i) (rs i) dest)) (enumerate n ds) = ds"
    for c rc rs n ds
    by (induction ds arbitrary: n) (auto simp: compare_branch_def Let_def)
  then show ?thesis by (simp add: comparisons_of_def Let_def)
qed

text \<open>
  Claim C3: for every input of \<open>compare_destinations\<close> the returned entries are sorted by
  descending \<open>overallScore\<close>, and the entries of any one score stand in the order of the
  unsorted comparisons, whose \<open>i\<close>-th entry belongs to the \<open>i\<close>-th destination of the input
  (so ties keep the input order); there is one entry per destination.
\<close>

theorem compareDestinations_sorted_stable:
  "sorted_wrt (\<lambda>a b. overallScore b \<le> overallScore a)
     (compareDestinations rnd_cost rnd_safety args) \<and>
   (\<forall>k. filter (\<lambda>e. overallScore e = k) (compareDestinations rnd_cost rnd_safety args) =
        filter (\<lambda>e. overallScore e = k) (comparisons_of rnd_cost rnd_safety args)) \<and>
   map ds_destination (comparisons_of rnd_cost rnd_safety args) = ca_destinations args \<and>
   length (compareDestinations rnd_cost rnd_safety args) = length (ca_destinations args)"
proof -
  have "length (comparisons_of rnd_cost rnd_safety args) = length (ca_destinations args)"
    using destinations_of_comparisons [of rnd_cost rnd_safety args] by (metis length_map)
  then show ?thesis
    by (simp add: compareDestinations_def sorted_Array_sort filter_Array_sort
        length_Array_sort destinations_of_comparisons)
qed

theorem compareDestinations_sorted_stable_witness:
  "map (\<lambda>e. (ds_destination e, overallScore e))
     (compareDestinations (\<lambda>i. [1 / 2, 1 / 5, 1 / 2] ! i) (\<lambda>i. 0)
        \<lparr>ca_destinations = [''A'', ''B'', ''C''], ca_criteria = None\<rparr>) =
   [(''B'', 68), (''A'', 65), (''C'', 65)]"
  using compareDestinations_sorted_stable [of "\<lambda>i. [1 / 2, 1 / 5, 1 / 2] ! i" "\<lambda>i. 0"
      "\<lparr>ca_destinations = [''A'', ''B'', ''C''], ca_criteria = None\<rparr>"]
  by (simp add: compareDestinations_def comparisons_of_def compare_branch_def Array_sort_def
      calculateOverallScore_def weatherScore_def costScore_def safetyScore_def
      activitiesScore_def getWeatherForecast_def getActivities_def getAverageHotelCost_def
      getSafetyRating_def Math_round_def Let_def enumerate_eq_zip upt_rec)

subsection \<open>Weather alerts\<close>

text \<open>
  Claim C10: for every destination \<open>get_weather_alerts\<close> returns an empty list of alerts,
  with and without an API key; the two modes differ in the message only.
\<close>

theorem getWeatherAlerts_empty:
  "alerts (getWeatherAlerts API_KEY destination) = [] \<and>
   getWeatherAlerts API_KEY destination =
     \<lparr>alerts = [],
      message = (if no_key API_KEY then ''No active weather alerts''
                 else ''Weather alerts not available in free tier'')\<rparr>"
  by (simp add: getWeatherAlerts_def)

subsection \<open>Currency trends\<close>































































subsection \<open>Aggregation over destinations\<close>

lemma nth_map_enumerate:
  "i < length xs \<Longrightarrow> map (\<lambda>(k, x). f k x) (enumerate n xs) ! i = f (n + i) (xs ! i)"
  by (simp add: nth_enumerate_eq)

lemma weather_branch_destination: "wc_destination (weather_branch API_KEY draws response dest) = dest"
  by (simp add: weather_branch_def Let_def split: http_result.splits)

lemma weather_branch_failure:
  "\<not> no_key API_KEY \<Longrightarrow> \<forall>r. response \<noteq> Response r \<Longrightarrow>
   weather_branch API_KEY draws response dest = WeatherError dest ''Unable to fetch weather data''"
  by (cases response) (simp_all add: weather_branch_def)

lemma budget_branch_destination:
  "bc_destination (budget_branch http_get now budget homeCurrency dest) = dest"
  by (simp add: budget_branch_def Let_def split: currency_text.splits sum.splits)

lemma convertCurrency_failure:
  "\<forall>rates. http_get (''/'' @ cv_from args) \<noteq> Response rates \<Longrightarrow>
   \<exists>e. convertCurrency http_get now args = Inl e"
  by (cases "http_get (''/'' @ cv_from args)") (simp_all add: convertCurrency_def Let_def)

lemma budget_branch_failure:
  "\<forall>rates. http_get (''/'' @ homeCurrency) \<noteq> Response rates \<Longrightarrow>
   budget_branch http_get now budget homeCurrency dest =
     BudgetError dest ''Unable to convert currency''"
proof -
  assume a: "\<forall>rates. http_get (''/'' @ homeCurrency) \<noteq> Response rates"
  have c: "\<exists>e. convertCurrency http_get now
              \<lparr>cv_from = homeCurrency, cv_to = to, cv_amount = Some budget\<rparr> = Inl e" for to
    using a convertCurrency_failure [of http_get
        "\<lparr>cv_from = homeCurrency, cv_to = to, cv_amount = Some budget\<rparr>" now]
    by simp
  show ?thesis
  proof (cases "getDestinationCurrency dest")
    case (InfoText info)
    obtain e where "convertCurrency http_get now
        \<lparr>cv_from = homeCurrency, cv_to = code info, cv_amount = Some budget\<rparr> = Inl e"
      using c by blast
    then show ?thesis using InfoText by (simp add: budget_branch_def Let_def)
  next
    case EmptyObjectText
    obtain e where "convertCurrency http_get now
        \<lparr>cv_from = homeCurrency, cv_to = ''undefined'', cv_amount = Some budget\<rparr> = Inl e"
      using c by blast
    then show ?thesis using EmptyObjectText by (simp add: budget_branch_def Let_def)
  next
    case UndefinedText
    then show ?thesis by (simp add: budget_branch_def)
  qed
qed

lemma weather_branch_form:
  "(\<exists>t c h w. weather_branch API_KEY draws response dest = WeatherOf dest t c h w) \<or>
   weather_branch API_KEY draws response dest = WeatherError dest ''Unable to fetch weather data''"
  by (cases response) (simp_all add: weather_branch_def Let_def)

lemma budget_branch_form:
  "(\<exists>c a r. budget_branch http_get now budget homeCurrency dest = BudgetIn dest c a r) \<or>
   budget_branch http_get now budget homeCurrency dest =
     BudgetError dest ''Unable to convert currency''"
  by (simp add: budget_branch_def Let_def split: currency_text.splits sum.splits)

lemma map_destination_enumerate:
  "(\<And>k x. d (f k x) = x) \<Longrightarrow> map d (map (\<lambda>(k, x). f k x) (enumerate n xs)) = xs"
  by (induction xs arbitrary: n) auto

text \<open>
  Claim C4: \<open>compare_destination_weather\<close> and \<open>get_travel_budget_conversion\<close> return one
  entry per destination, in the order of the input. The entry of slot \<open>i\<close> is computed by
  the branch of the \<open>i\<close>-th destination from that branch's own request and draws only, so
  no other branch can remove or move it; it is a result for that destination or the
  placeholder \<open>{destination, error}\<close>, and it is the placeholder when the branch's
  request fails.
\<close>

theorem aggregation_keeps_every_slot:
  "length (compareDestinationWeather API_KEY rnd http_w destinations) = length destinations \<and>
   map wc_destination (compareDestinationWeather API_KEY rnd http_w destinations) = destinations \<and>
   (\<forall>i < length destinations.
      compareDestinationWeather API_KEY rnd http_w destinations ! i =
        weather_branch API_KEY (rnd i) (http_w i (destinations ! i)) (destinations ! i)) \<and>
   (\<forall>i < length destinations.
      \<not> no_key API_KEY \<and> (\<forall>r. http_w i (destinations ! i) \<noteq> Response r) \<longrightarrow>
      compareDestinationWeather API_KEY rnd http_w destinations ! i =
        WeatherError (destinations ! i) ''Unable to fetch weather data'') \<and>
   (\<forall>i < length destinations.
      (\<exists>t c h w. compareDestinationWeather API_KEY rnd http_w destinations ! i =
                 WeatherOf (destinations ! i) t c h w) \<or>
      compareDestinationWeather API_KEY rnd http_w destinations ! i =
        WeatherError (destinations ! i) ''Unable to fetch weather data'') \<and>
   length (getTravelBudgetConversion http_c now args) = length (ba_destinations args) \<and>
   map bc_destination (getTravelBudgetConversion http_c now args) = ba_destinations args \<and>
   (\<forall>i < length (ba_destinations args).
      getTravelBudgetConversion http_c now args ! i =
        budget_branch (http_c i) now (ba_budget args)
          (case ba_homeCurrency args of None \<Rightarrow> ''USD'' | Some h \<Rightarrow> h)
          (ba_destinations args ! i)) \<and>
   (\<forall>i < length (ba_destinations args).
      (\<forall>rates. http_c i (''/'' @ (case ba_homeCurrency args of None \<Rightarrow> ''USD'' | Some h \<Rightarrow> h))
                \<noteq> Response rates) \<longrightarrow>
      getTravelBudgetConversion http_c now args ! i =
        BudgetError (ba_destinations args ! i) ''Unable to convert currency'') \<and>
   (\<forall>i < length (ba_destinations args).
      (\<exists>c a r. getTravelBudgetConversion http_c now args ! i =
               BudgetIn (ba_destinations args ! i) c a r) \<or>
      getTravelBudgetConversion http_c now args ! i =
        BudgetError (ba_destinations args ! i) ''Unable to convert currency'')"
proof -
  let ?w = "compareDestinationWeather API_KEY rnd http_w destinations"
  let ?b = "getTravelBudgetConversion http_c now args"
  let ?home = "case ba_homeCurrency args of None \<Rightarrow> ''USD'' | Some h \<Rightarrow> h"
  have w1: "length ?w = length destinations"
    by (simp add: compareDestinationWeather_def)
  have w2: "map wc_destination ?w = destinations"
    unfolding compareDestinationWeather_def
    by (rule map_destination_enumerate) (rule weather_branch_destination)
  have w3: "?w ! i = weather_branch API_KEY (rnd i) (http_w i (destinations ! i)) (destinations ! i)"
    if "i < length destinations" for i
    using that by (simp add: compareDestinationWeather_def nth_enumerate_eq)
  have w4: "?w ! i = WeatherError (destinations ! i) ''Unable to fetch weather data''"
    if "i < length destinations" and "\<not> no_key API_KEY"
      and "\<forall>r. http_w i (destinations ! i) \<noteq> Response r" for i
    using that by (simp add: w3 weather_branch_failure)
  have w5: "(\<exists>t c h w. ?w ! i = WeatherOf (destinations ! i) t c h w) \<or>
            ?w ! i = WeatherError (destinations ! i) ''Unable to fetch weather data''"
    if "i < length destinations" for i
    using that by (simp add: w3 weather_branch_form)
  have b1: "length ?b = length (ba_destinations args)"
    by (simp add: getTravelBudgetConversion_def Let_def)
  have b2: "map bc_destination ?b = ba_destinations args"
    unfolding getTravelBudgetConversion_def Let_def
    by (rule map_destination_enumerate) (rule budget_branch_destination)
  have b3: "?b ! i = budget_branch (http_c i) now (ba_budget args) ?home (ba_destinations args ! i)"
    if "i < length (ba_destinations args)" for i
    using that by (simp add: getTravelBudgetConversion_def Let_def nth_enumerate_eq)
  have b4: "?b ! i = BudgetError (ba_destinations args ! i) ''Unable to convert currency''"
    if "i < length (ba_destinations args)"
      and "\<forall>rates. http_c i (''/'' @ ?home) \<noteq> Response rates" for i
    using that by (simp add: b3 budget_branch_failure)
  have b5: "(\<exists>c a r. ?b ! i = BudgetIn (ba_destinations args ! i) c a r) \<or>
            ?b ! i = BudgetError (ba_destinations args ! i) ''Unable to convert currency''"
    if "i < length (ba_destinations args)" for i
    using that by (simp add: b3 budget_branch_form)
  show ?thesis
    using w1 w2 w3 w4 w5 b1 b2 b3 b4 b5 by (intro conjI allI impI) blast+
qed

theorem aggregation_keeps_every_slot_witness:
  "compareDestinationWeather (Some ''key'')
     (\<lambda>i. \<lparr>u_condition = 0, u_temp = 0, u_humidity = 0, u_wind = 0\<rparr>)
     (\<lambda>i dest. if dest = ''B'' then AxiosError ''timeout''
                else Response \<lparr>main_temp = 21, weather0_description = ''clear sky'',
                       main_humidity = 60, wind_speed = 3\<rparr>)
     [''A'', ''B'', ''C''] =
     [WeatherOf ''A'' 21 (Some ''clear sky'') 60 3,
      WeatherError ''B'' ''Unable to fetch weather data'',
      WeatherOf ''C'' 21 (Some ''clear sky'') 60 3] \<and>
   map bc_destination
     (getTravelBudgetConversion
        (\<lambda>i url. if i = 1 then AxiosError ''timeout''
                  else Response (map_of [(''EUR'', 9 / 10), (''GBP'', 8 / 10)]))
        ''2024-06-01T00:00:00.000Z''
        \<lparr>ba_budget = 1000, ba_homeCurrency = None,
         ba_destinations = [''Paris'', ''Tokyo'', ''London'']\<rparr>) =
     [''Paris'', ''Tokyo'', ''London''] \<and>
   getTravelBudgetConversion
     (\<lambda>i url. if i = 1 then AxiosError ''timeout''
               else Response (map_of [(''EUR'', 9 / 10), (''GBP'', 8 / 10)]))
     ''2024-06-01T00:00:00.000Z''
     \<lparr>ba_budget = 1000, ba_homeCurrency = None,
      ba_destinations = [''Paris'', ''Tokyo'', ''London'']\<rparr> ! 1 =
     BudgetError ''Tokyo'' ''Unable to convert currency''"
  using aggregation_keeps_every_slot [of "Some ''key''"
      "\<lambda>i. \<lparr>u_condition = 0, u_temp = 0, u_humidity = 0, u_wind = 0\<rparr>"
      "\<lambda>i dest. if dest = ''B'' then AxiosError ''timeout''
                else Response \<lparr>main_temp = 21, weather0_description = ''clear sky'',
                       main_humidity = 60, wind_speed = 3\<rparr>"
      "[''A'', ''B'', ''C'']"
      "\<lambda>i url. if i = 1 then AxiosError ''timeout''
                else Response (map_of [(''EUR'', 9 / 10), (''GBP'', 8 / 10)])"
      "''2024-06-01T00:00:00.000Z''"
      "\<lparr>ba_budget = 1000, ba_homeCurrency = None,
        ba_destinations = [''Paris'', ''Tokyo'', ''London'']\<rparr>"]
  by (simp add: compareDestinationWeather_def weather_branch_def no_key_def
      getTravelBudgetConversion_def budget_branch_def getDestinationCurrency_def js_get_def
      destinationCurrencies_def convertCurrency_def Let_def)

subsection \<open>Trip planning\<close>

lemma planTrip_rejects:
  assumes "Date_parse (ta_startDate args) = Num s" and "Date_parse (ta_endDate args) = Num e"
    and "\<not> s < e"
  shows "planTrip Date_parse u args =
           Inl (McpError InvalidParams ''End date must be after start date'')"
  using assms by (simp add: planTrip_def Let_def)

lemma planTrip_accepts:
  assumes "Date_parse (ta_startDate args) = Num s" and "Date_parse (ta_endDate args) = Num e"
    and "s < e"
  shows "\<exists>plan. planTrip Date_parse u args = Inr plan"
  using assms by (simp add: planTrip_def Let_def)

lemma planTrip_invalid_date:
  assumes "Date_parse (ta_startDate args) = NaN \<or> Date_parse (ta_endDate args) = NaN"
  shows "\<exists>plan. planTrip Date_parse u args = Inr plan \<and> totalCost plan = NaN"
proof -
  have ge: "\<not> js_ge (Date_parse (ta_startDate args)) (Date_parse (ta_endDate args))"
    using assms by (cases "Date_parse (ta_startDate args)"; cases "Date_parse (ta_endDate args)") auto
  have nights: "js_minus (Date_parse (ta_endDate args)) (Date_parse (ta_startDate args)) = NaN"
    using assms by (cases "Date_parse (ta_startDate args)"; cases "Date_parse (ta_endDate args)") auto
  have "js_plus (js_plus x NaN) y = NaN" for x y by (cases x) simp_all
  then show ?thesis
    using ge nights
    by (simp add: planTrip_def Let_def searchHotels_def calculateTotalCost_def searchFlights_def)
qed

text \<open>The guard rejects exactly the requests whose dates both parse and are not in order.\<close>

lemma planTrip_rejects_iff:
  "(\<exists>err. planTrip Date_parse u args = Inl err) \<longleftrightarrow>
   (\<exists>s e. Date_parse (ta_startDate args) = Num s \<and> Date_parse (ta_endDate args) = Num e \<and>
          e \<le> s)"
  by (cases "Date_parse (ta_startDate args)"; cases "Date_parse (ta_endDate args)")
     (simp_all add: planTrip_def Let_def)

text \<open>
  Claim C5 (end date not strictly after the start date: rejected) fails on the code for
  dates that do not parse: the time value of such a date is \<open>NaN\<close>, \<open>start >= end\<close> is
  false, and the plan is built, with \<open>NaN\<close> nights, hotel prices and total cost. Here for
  a request whose start and end dates are the same unparsable text.
\<close>

theorem planTrip_accepts_unparsable_dates:
  "map_sum id (\<lambda>plan. (map totalPrice (tp_hotels plan), totalCost plan))
     (planTrip (\<lambda>s. if s = ''2024-06-08'' then Num 1717804800000 else NaN) (1 / 2)
        \<lparr>ta_destination = ''Paris'', ta_origin = None, ta_startDate = ''not-a-date'',
         ta_endDate = ''not-a-date'', ta_budget = None, ta_travelers = None,
         ta_preferences = None\<rparr>) =
   Inr ([NaN, NaN], NaN)"
  by (simp add: planTrip_def Let_def searchHotels_def calculateTotalCost_def searchFlights_def
      getActivities_def)

subsection \<open>Currency conversion and lookup\<close>

lemma convertCurrency_rate:
  assumes "http_get (''/'' @ cv_from args) = Response rates"
    and "rates (cv_to args) = Some rate" and "rate \<noteq> 0"
  shows "convertCurrency http_get now args =
           Inr \<lparr>exchangeRate =
                  \<lparr>er_from = cv_from args, er_to = cv_to args, er_rate = Some rate,
                   er_timestamp = now\<rparr>,
                convertedAmount = Num ((case cv_amount args of None \<Rightarrow> 1 | Some a \<Rightarrow> a) * rate),
                originalAmount = (case cv_amount args of None \<Rightarrow> 1 | Some a \<Rightarrow> a)\<rparr>"
  using assms by (simp add: convertCurrency_def Let_def js_get_def)

lemma convertCurrency_no_rate:
  assumes "http_get (''/'' @ cv_from args) = Response rates"
    and "rates (cv_to args) = None" and "cv_to args \<notin> set Object_prototype_keys"
  shows "convertCurrency http_get now args =
           Inl (McpError InvalidParams
                 (''Exchange rate not available for '' @ cv_from args @ '' to '' @ cv_to args))"
  using assms by (simp add: convertCurrency_def Let_def js_get_def)

text \<open>
  Claim C7 (no rate for the pair: an error) fails on the code for a target currency that
  names a member of \<open>Object.prototype\<close>: the provider has no such rate, \<open>rates[to]\<close> is
  the inherited function, \<open>!rate\<close> is false, and the call returns a conversion whose
  amount is \<open>NaN\<close> instead of failing.
\<close>

theorem convertCurrency_inherited_key_no_error:
  "convertCurrency (\<lambda>url. Response (map_of [(''EUR'', 92 / 100), (''GBP'', 79 / 100)]))
     ''2024-06-01T00:00:00.000Z''
     \<lparr>cv_from = ''USD'', cv_to = ''constructor'', cv_amount = Some 100\<rparr> =
   Inr \<lparr>exchangeRate =
          \<lparr>er_from = ''USD'', er_to = ''constructor'', er_rate = None,
           er_timestamp = ''2024-06-01T00:00:00.000Z''\<rparr>,
        convertedAmount = NaN, originalAmount = 100\<rparr>"
  by (simp add: convertCurrency_def Let_def js_get_def Object_prototype_keys_def)

lemma getDestinationCurrency_Paris:
  "getDestinationCurrency ''Paris'' =
     InfoText \<lparr>code = ''EUR'', cname = ''Euro'', symbol = [CHR 0xE2, CHR 0x82, CHR 0xAC],
               country = ''France''\<rparr>"
  by (simp add: getDestinationCurrency_def js_get_def destinationCurrencies_def)

lemma getDestinationCurrency_mapped:
  "destinationCurrencies destination = Some info \<Longrightarrow>
   getDestinationCurrency destination = InfoText info"
  by (simp add: getDestinationCurrency_def js_get_def)

lemma getDestinationCurrency_default:
  "destinationCurrencies destination = None \<Longrightarrow>
   destination \<notin> set Object_prototype_keys \<Longrightarrow>
   getDestinationCurrency destination = InfoText default_currency"
  by (simp add: getDestinationCurrency_def js_get_def)

text \<open>
  Claim C8 (a destination that is not in the mapping: the default currency) fails on the
  code for a destination that names a member of \<open>Object.prototype\<close>: the lookup yields
  the inherited function, the default is not taken, and the reply's text is
  \<open>JSON.stringify\<close> of a function, \<open>undefined\<close>.
\<close>

theorem getDestinationCurrency_inherited_key_no_default:
  "destinationCurrencies ''constructor'' = None \<and>
   getDestinationCurrency ''constructor'' = UndefinedText \<and>
   getDestinationCurrency ''constructor'' \<noteq> InfoText default_currency"
  by (simp add: getDestinationCurrency_def js_get_def destinationCurrencies_def
      Object_prototype_keys_def)

end
